theory Spec2Isabelle
  imports Main
begin

section \<open>Python values, errors and strings\<close>

text \<open>
  The adaptor of \<^verbatim>\<open>flask_sapb1.py\<close> moves dynamically typed values between a SQL
  cursor, a COM business object and its caller. A value is one of the kinds the code
  distinguishes (\<^verbatim>\<open>None\<close>, \<^verbatim>\<open>datetime.datetime\<close>, \<^verbatim>\<open>decimal.Decimal\<close>) or treats
  alike (everything else). A \<^verbatim>\<open>Decimal\<close> and a value of any further type (a
  \<^verbatim>\<open>float\<close>, a \<^verbatim>\<open>date\<close>) are represented by the text \<^verbatim>\<open>str()\<close> gives
  for them. A string is the list of its characters, which \<^verbatim>\<open>len\<close> counts, and
  \<^verbatim>\<open>str()\<close> and \<^verbatim>\<open>strftime\<close> return for every value, with a year of four
  digits.
\<close>

record datetime =
  year :: nat
  month :: nat
  day :: nat
  hour :: nat
  minute :: nat
  second :: nat
  microsecond :: nat

datatype pyval =
    PNone
  | PStr string
  | PInt int
  | PBool bool
  | PDateTime datetime
  | PDecimal string
  | PObj string

text \<open>Every raise of the source is a value; \<^verbatim>\<open>raise Exception(msg)\<close> is \<open>Exception msg\<close>.\<close>

datatype py_error =
    KeyError string
  | IndexError
  | AttributeError string
  | TypeError
  | ValueError
  | Exception string
  | RemoteError string

type_synonym 'a result = "py_error + 'a"

text \<open>A dict is an association list in its iteration order; a key occurs once.\<close>

type_synonym dict = "(string \<times> pyval) list"

definition bind :: "'a result \<Rightarrow> ('a \<Rightarrow> 'b result) \<Rightarrow> 'b result" where
  "bind m f = (case m of Inl e \<Rightarrow> Inl e | Inr x \<Rightarrow> f x)"

text \<open>\<^verbatim>\<open>d[k]\<close> and \<^verbatim>\<open>d[k] = v\<close>\<close>

definition getitem :: "(string \<times> 'v) list \<Rightarrow> string \<Rightarrow> 'v result" where
  "getitem d k = (case map_of d k of None \<Rightarrow> Inl (KeyError k) | Some v \<Rightarrow> Inr v)"

fun setitem :: "(string \<times> 'v) list \<Rightarrow> string \<Rightarrow> 'v \<Rightarrow> (string \<times> 'v) list" where
  "setitem [] k v = [(k, v)]"
| "setitem ((k', v') # d) k v = (if k' = k then (k, v) # d else (k', v') # setitem d k v)"

definition digit_char :: "nat \<Rightarrow> char" where
  "digit_char n = ''0123456789'' ! (n mod 10)"

fun str_nat :: "nat \<Rightarrow> string" where
  "str_nat n = (if n < 10 then [digit_char n] else str_nat (n div 10) @ [digit_char n])"

declare str_nat.simps [simp del]

definition str_int :: "int \<Rightarrow> string" where
  "str_int i = (if i < 0 then CHR ''-'' # str_nat (nat (- i)) else str_nat (nat i))"

text \<open>\<^verbatim>\<open>%02d\<close>-style zero padding to a width.\<close>

definition zero_pad :: "nat \<Rightarrow> nat \<Rightarrow> string" where
  "zero_pad w n = replicate (w - length (str_nat n)) (CHR ''0'') @ str_nat n"

text \<open>\<^verbatim>\<open>v.strftime("%Y-%m-%d %H:%M:%S")\<close>\<close>

definition strftime :: "datetime \<Rightarrow> string" where
  "strftime v =
     zero_pad 4 (year v) @ ''-'' @ zero_pad 2 (month v) @ ''-'' @ zero_pad 2 (day v) @ '' '' @
     zero_pad 2 (hour v) @ '':'' @ zero_pad 2 (minute v) @ '':'' @ zero_pad 2 (second v)"

text \<open>\<^verbatim>\<open>str(v)\<close>, which \<^verbatim>\<open>"{0}".format(v)\<close> agrees with on these values.\<close>

fun py_str :: "pyval \<Rightarrow> string" where
  "py_str PNone = ''None''"
| "py_str (PStr s) = s"
| "py_str (PInt i) = str_int i"
| "py_str (PBool b) = (if b then ''True'' else ''False'')"
| "py_str (PDateTime v) =
     strftime v @ (if microsecond v = 0 then [] else CHR ''.'' # zero_pad 6 (microsecond v))"
| "py_str (PDecimal s) = s"
| "py_str (PObj s) = s"

text \<open>\<^verbatim>\<open>sep.join(xs)\<close>\<close>

fun join :: "string \<Rightarrow> string list \<Rightarrow> string" where
  "join sep [] = []"
| "join sep [x] = x"
| "join sep (x # y # ys) = x @ sep @ join sep (y # ys)"

text \<open>
  \<^verbatim>\<open>xs[0:stop]\<close>: a negative \<open>stop\<close> counts from the end, and the bounds are
  clamped to the sequence.
\<close>

definition slice_to :: "'a list \<Rightarrow> int \<Rightarrow> 'a list" where
  "slice_to xs stop = (if stop < 0 then take (nat (int (length xs) + stop)) xs else take (nat stop) xs)"

section \<open>SAPB1Adaptor.trimValue\<close>

text \<open>
  \<^verbatim>\<open>
  def trimValue(self, value, maxLength):
      if len(value) > maxLength:
          return value[0:maxLength-1]
      return value
  \<close>
\<close>

definition trimValue :: "string \<Rightarrow> int \<Rightarrow> string" where
  "trimValue v maxLength =
     (if int (length v) > maxLength then slice_to v (maxLength - 1) else v)"

section \<open>The remote system\<close>

text \<open>
  The SQL database and the COM business-object API are outside the program. Their
  answers are functions of a state \<open>'w\<close> of the remote system, which only a commit
  (\<^verbatim>\<open>Update\<close>, \<^verbatim>\<open>Add\<close>, \<^verbatim>\<open>Cancel\<close>) changes. \<open>cursor_execute\<close> is
  \<^verbatim>\<open>cursor.execute(sql, args)\<close> followed by the iteration over the cursor; a failure
  of the driver is a \<open>RemoteError\<close>. A commit is given the fields assigned to the
  business object and answers with its integer code.
\<close>

datatype sql_args =
    ArgsNone
  | ArgsValue pyval
  | ArgsTuple "pyval list"
  | ArgsDict dict
  | ArgsTupleOfDict dict

record 'w remote =
  cursor_execute :: "'w \<Rightarrow> string \<Rightarrow> sql_args \<Rightarrow> dict list result"
  ContactEmployees_Count :: "'w \<Rightarrow> pyval \<Rightarrow> int"
  ContactEmployees_InternalCode :: "'w \<Rightarrow> pyval \<Rightarrow> int"
  BusinessPartners_Update :: "'w \<Rightarrow> pyval \<Rightarrow> int \<Rightarrow> dict \<Rightarrow> int \<times> 'w"
  Orders_Add :: "'w \<Rightarrow> dict \<Rightarrow> dict list \<Rightarrow> int \<times> 'w"
  Orders_Cancel :: "'w \<Rightarrow> pyval \<Rightarrow> int \<times> 'w"
  GetLastErrorDescription :: "'w \<Rightarrow> string"
  GetLastError :: "'w \<Rightarrow> pyval"
  time :: "'w \<Rightarrow> pyval"
  to_float :: "pyval \<Rightarrow> pyval result"
  to_Decimal :: "pyval \<Rightarrow> pyval result"

section \<open>MsSqlAdaptor\<close>

text \<open>
  \<^verbatim>\<open>
  def execute(self, sql, *args, **kwargs):
      if len(args):
          args = tuple(args)
      else:
          args = None
      if len(kwargs):
          args = (kwargs,)
      self.cursor.execute(sql, args)
  \<close>
\<close>

definition execute_args :: "pyval list \<Rightarrow> dict \<Rightarrow> sql_args" where
  "execute_args args kwargs =
     (if length kwargs \<noteq> 0 then ArgsTupleOfDict kwargs
      else if length args \<noteq> 0 then ArgsTuple args else ArgsNone)"

definition execute :: "'w remote \<Rightarrow> 'w \<Rightarrow> string \<Rightarrow> pyval list \<Rightarrow> dict \<Rightarrow> dict list result" where
  "execute R w sql args kwargs = cursor_execute R w sql (execute_args args kwargs)"

text \<open>
  The row normalizer of \<^verbatim>\<open>fetch_all\<close>:
  \<^verbatim>\<open>
  value = ''
  if isinstance(v, datetime.datetime):
      value = v.strftime("%Y-%m-%d %H:%M:%S")
  elif isinstance(v, decimal.Decimal):
      value = str(v)
  elif v is not None:
      value = v
  item[k] = value
  \<close>
\<close>

fun fetch_all_value :: "pyval \<Rightarrow> pyval" where
  "fetch_all_value (PDateTime v) = PStr (strftime v)"
| "fetch_all_value (PDecimal s) = PStr (py_str (PDecimal s))"
| "fetch_all_value PNone = PStr []"
| "fetch_all_value v = v"

definition fetch_all_item :: "dict \<Rightarrow> dict" where
  "fetch_all_item row = map (\<lambda>(k, v). (k, fetch_all_value v)) row"

definition fetch_all :: "'w remote \<Rightarrow> 'w \<Rightarrow> string \<Rightarrow> pyval list \<Rightarrow> dict \<Rightarrow> dict list result" where
  "fetch_all R w sql args kwargs =
     bind (execute R w sql args kwargs) (\<lambda>rows. Inr (map fetch_all_item rows))"

text \<open>\<^verbatim>\<open>cursor.fetchone()\<close> is the first row, or \<^verbatim>\<open>None\<close> when there is none.\<close>

definition fetchone :: "'w remote \<Rightarrow> 'w \<Rightarrow> string \<Rightarrow> pyval list \<Rightarrow> dict \<Rightarrow> dict option result" where
  "fetchone R w sql args kwargs =
     bind (execute R w sql args kwargs)
       (\<lambda>rows. Inr (case rows of [] \<Rightarrow> None | row # _ \<Rightarrow> Some row))"

section \<open>SAPB1Adaptor: read operations\<close>

text \<open>
  \<^verbatim>\<open>
  cols = '*'
  if len(columns) > 0:
      cols = " ,".join(columns)
  \<close>
\<close>

definition cols_of :: "string list \<Rightarrow> string" where
  "cols_of columns = (if length columns > 0 then join '' ,'' columns else ''*'')"

text \<open>
  A filter map takes a column to a dict with the entry \<^verbatim>\<open>'value'\<close> and, optionally,
  \<^verbatim>\<open>'op'\<close>.
  \<^verbatim>\<open>
  ops = {key: '=' if 'op' not in params[key].keys() else params[key]['op']
         for key in params.keys()}
  \<close>
\<close>

type_synonym filters = "(string \<times> dict) list"

definition filter_op :: "dict \<Rightarrow> pyval" where
  "filter_op f = (case map_of f ''op'' of None \<Rightarrow> PStr ''='' | Some opv \<Rightarrow> opv)"

definition ops_of :: "filters \<Rightarrow> dict" where
  "ops_of params = map (\<lambda>(key, f). (key, filter_op f)) params"

text \<open>\<^verbatim>\<open>"{0} {1} %({2})s".format(k, ops[k], k)\<close>\<close>

definition where_clause :: "string \<times> pyval \<Rightarrow> string" where
  "where_clause ko = fst ko @ '' '' @ py_str (snd ko) @ '' %('' @ fst ko @ '')s''"

text \<open>\<^verbatim>\<open>{key: params[key]['value'] for key in params.keys()}\<close>\<close>

fun filter_values :: "filters \<Rightarrow> dict result" where
  "filter_values [] = Inr []"
| "filter_values ((key, f) # rest) =
     bind (getitem f ''value'') (\<lambda>v. bind (filter_values rest) (\<lambda>d. Inr ((key, v) # d)))"

text \<open>
  \<^verbatim>\<open>
  def getOrders(self, num=1, columns=[], params={}):
      cols = '*'
      if len(columns) > 0:
          cols = " ,".join(columns)
      ops = {...}
      sql = """SELECT top {0} {1} FROM dbo.ORDR""".format(num, cols)
      if len(params) > 0:
          sql = sql + ' WHERE ' + " AND ".join(
              ["{0} {1} %({2})s".format(k, ops[k], k) for k in params.keys()])
      cursor = self.sql_adaptor.cursor
      cursor.execute(sql, {key: params[key]['value'] for key in params.keys()})
      orders = []
      for row in cursor:
          order = {}
          for k, v in row.items():
              value = ''
              if type(v) is datetime.datetime:
                  value = v.strftime("%Y-%m-%d %H:%M:%S")
              elif v is not None:
                  value = str(v)
              order[k] = value
          orders.append(order)
      return orders
  \<close>
\<close>

definition where_clauses :: "filters \<Rightarrow> string list" where
  "where_clauses params = map where_clause (ops_of params)"

definition getOrders_sql :: "int \<Rightarrow> string list \<Rightarrow> filters \<Rightarrow> string" where
  "getOrders_sql num columns params =
     (let sql = ''SELECT top '' @ str_int num @ '' '' @ cols_of columns @ '' FROM dbo.ORDR''
      in if length params > 0
         then sql @ '' WHERE '' @ join '' AND '' (where_clauses params)
         else sql)"

fun getOrders_value :: "pyval \<Rightarrow> pyval" where
  "getOrders_value (PDateTime v) = PStr (strftime v)"
| "getOrders_value PNone = PStr []"
| "getOrders_value v = PStr (py_str v)"

definition getOrders_order :: "dict \<Rightarrow> dict" where
  "getOrders_order row = map (\<lambda>(k, v). (k, getOrders_value v)) row"

definition getOrders :: "'w remote \<Rightarrow> 'w \<Rightarrow> int \<Rightarrow> string list \<Rightarrow> filters \<Rightarrow> dict list result" where
  "getOrders R w num columns params =
     bind (filter_values params) (\<lambda>p.
     bind (cursor_execute R w (getOrders_sql num columns params) (ArgsDict p)) (\<lambda>rows.
     Inr (map getOrders_order rows)))"

text \<open>
  \<^verbatim>\<open>getItems(self, limit=1, columns=None, whs=None, code=None)\<close> and
  \<^verbatim>\<open>getPrices\<close>: \<^verbatim>\<open>columns\<close>, \<^verbatim>\<open>whs\<close> and \<^verbatim>\<open>code\<close> are strings or \<^verbatim>\<open>None\<close>,
  and \<^verbatim>\<open>if whs:\<close> holds for a string that is not empty.
\<close>

definition truthy :: "string option \<Rightarrow> bool" where
  "truthy x = (case x of None \<Rightarrow> False | Some s \<Rightarrow> s \<noteq> [])"

definition text_of :: "string option \<Rightarrow> string" where
  "text_of x = (case x of None \<Rightarrow> ''None'' | Some s \<Rightarrow> s)"

definition getItems_sql :: "int \<Rightarrow> string option \<Rightarrow> string option \<Rightarrow> string option \<Rightarrow> string" where
  "getItems_sql limit columns whs code =
     (let cols = (if truthy columns then text_of columns
                  else ''ItemCode, ItemName, ItmsGrpCod, UgpEntry, U_MARCA, U_DIVISION, AvgPrice, CreateDate, UpdateDate'')
      in if truthy whs then
           ''SELECT top '' @ str_int limit @ '' '' @ cols @ '' FROM dbo.OITM\<newline>                     WHERE ItemCode in\<newline>                         (SELECT ItemCode FROM dbo.OITW\<newline>                          WHERE WhsCode = '' @ [CHR 0x27] @ text_of whs @ [CHR 0x27] @ '')''
         else if truthy code then
           ''SELECT '' @ cols @ '' FROM dbo.OITM\<newline>                     WHERE ItemCode = '' @ [CHR 0x27] @ text_of code @ [CHR 0x27]
         else
           ''SELECT top '' @ str_int limit @ '' '' @ cols @ '' FROM dbo.OITM'')"

definition getItems :: "'w remote \<Rightarrow> 'w \<Rightarrow> int \<Rightarrow> string option \<Rightarrow> string option \<Rightarrow> string option \<Rightarrow> dict list result" where
  "getItems R w limit columns whs code = fetch_all R w (getItems_sql limit columns whs code) [] []"

definition getPrices_sql :: "int \<Rightarrow> string option \<Rightarrow> string option \<Rightarrow> string option \<Rightarrow> string" where
  "getPrices_sql limit columns whs code =
     (let cols = (if truthy columns then text_of columns
                  else ''ItemCode, Price, Currency, Ovrwritten, Factor'');
          listNumber = (2 :: int)
      in if truthy whs then
           ''SELECT top '' @ str_int limit @ '' '' @ cols @ '' FROM dbo.ITM1\<newline>                     WHERE PriceList = '' @ str_int listNumber @ ''\<newline>                     AND ItemCode in\<newline>                         (SELECT ItemCode FROM dbo.OITW\<newline>                          WHERE WhsCode = '' @ [CHR 0x27] @ text_of whs @ [CHR 0x27] @ '')''
         else if truthy code then
           ''SELECT '' @ cols @ '' FROM dbo.ITM1\<newline>                     WHERE PriceList = '' @ str_int listNumber @ ''\<newline>                     AND ItemCode = '' @ [CHR 0x27] @ text_of code @ [CHR 0x27]
         else
           ''SELECT top '' @ str_int limit @ '' '' @ cols @ '' FROM dbo.ITM1\<newline>                     WHERE PriceList = '' @ str_int listNumber)"

definition getPrices :: "'w remote \<Rightarrow> 'w \<Rightarrow> int \<Rightarrow> string option \<Rightarrow> string option \<Rightarrow> string option \<Rightarrow> dict list result" where
  "getPrices R w limit columns whs code = fetch_all R w (getPrices_sql limit columns whs code) [] []"

text \<open>
  \<^verbatim>\<open>
  def getMainCurrency(self):
      sql = """SELECT MainCurncy FROM dbo.OADM"""
      return self.sql_adaptor.fetchone(sql)['MainCurncy']
  \<close>
  Subscripting the \<^verbatim>\<open>None\<close> of an empty result is a \<^verbatim>\<open>TypeError\<close>.
\<close>

definition row_item :: "dict option \<Rightarrow> string \<Rightarrow> pyval result" where
  "row_item row k = (case row of None \<Rightarrow> Inl TypeError | Some r \<Rightarrow> getitem r k)"

definition getMainCurrency :: "'w remote \<Rightarrow> 'w \<Rightarrow> pyval result" where
  "getMainCurrency R w =
     bind (fetchone R w ''SELECT MainCurncy FROM dbo.OADM'' [] []) (\<lambda>row. row_item row ''MainCurncy'')"

text \<open>
  \<^verbatim>\<open>
  def getContacts(self, num=1, columns=[], cardCode=None, contact={}):
      cols = '*'
      if len(columns) > 0:
          cols = " ,".join(columns)
      sql = """SELECT top {0} {1} FROM dbo.OCPR""".format(num, cols)
      params = dict({(k, 'null' if v is None else v) for k, v in contact.items()})
      params['cardcode'] = cardCode
      sql = sql + ' WHERE ' + " AND ".join(["{0} = %({1})s".format(k, k) for k in params.keys()])
      return list(self.sql_adaptor.fetch_all(sql))
  \<close>
  The keys of \<^verbatim>\<open>params\<close> are taken in the order of \<^verbatim>\<open>contact\<close>, then \<^verbatim>\<open>'cardcode'\<close>.
  The statement is executed without \<^verbatim>\<open>params\<close>.
\<close>

definition getContacts_sql :: "int \<Rightarrow> string list \<Rightarrow> pyval \<Rightarrow> dict \<Rightarrow> string" where
  "getContacts_sql num columns cardCode contact =
     (let sql = ''SELECT top '' @ str_int num @ '' '' @ cols_of columns @ '' FROM dbo.OCPR'';
          params = setitem (map (\<lambda>(k, v). (k, if v = PNone then PStr ''null'' else v)) contact)
                     ''cardcode'' cardCode
      in sql @ '' WHERE '' @ join '' AND '' (map (\<lambda>k. k @ '' = %('' @ k @ '')s'') (map fst params)))"

definition getContacts :: "'w remote \<Rightarrow> 'w \<Rightarrow> int \<Rightarrow> string list \<Rightarrow> pyval \<Rightarrow> dict \<Rightarrow> dict list result" where
  "getContacts R w num columns cardCode contact =
     fetch_all R w (getContacts_sql num columns cardCode contact) [] []"

text \<open>
  \<^verbatim>\<open>
  def getExpnsCode(self, expnsName):
      sql = """SELECT ExpnsCode FROM dbo.OEXD WHERE ExpnsName = %s"""
      cursor = self.sql_adaptor.cursor
      cursor.execute(sql, expnsName)
      expnsCode = cursor.fetchone()['ExpnsCode']
      return expnsCode

  def getTrnspCode(self, trnspName):
      sql = """SELECT TrnspCode FROM dbo.OSHP WHERE TrnspName = %s"""
      return self.sql_adaptor.fetchone(sql, trnspName)['TrnspCode']
  \<close>
\<close>

definition getExpnsCode :: "'w remote \<Rightarrow> 'w \<Rightarrow> pyval \<Rightarrow> pyval result" where
  "getExpnsCode R w expnsName =
     bind (cursor_execute R w ''SELECT ExpnsCode FROM dbo.OEXD WHERE ExpnsName = %s'' (ArgsValue expnsName))
       (\<lambda>rows. row_item (case rows of [] \<Rightarrow> None | row # _ \<Rightarrow> Some row) ''ExpnsCode'')"

definition getTrnspCode :: "'w remote \<Rightarrow> 'w \<Rightarrow> pyval \<Rightarrow> pyval result" where
  "getTrnspCode R w trnspName =
     bind (fetchone R w ''SELECT TrnspCode FROM dbo.OSHP WHERE TrnspName = %s'' [trnspName] [])
       (\<lambda>row. row_item row ''TrnspCode'')"

definition getExpnsNames :: "'w remote \<Rightarrow> 'w \<Rightarrow> dict list result" where
  "getExpnsNames R w = fetch_all R w ''SELECT ExpnsName FROM dbo.OEXD'' [] []"

definition getTrnspNames :: "'w remote \<Rightarrow> 'w \<Rightarrow> dict list result" where
  "getTrnspNames R w = fetch_all R w ''SELECT TrnspName FROM dbo.OSHP'' [] []"

definition getPayMethCods :: "'w remote \<Rightarrow> 'w \<Rightarrow> dict list result" where
  "getPayMethCods R w = fetch_all R w ''SELECT PayMethCod from opym'' [] []"

definition getTaxCodes :: "'w remote \<Rightarrow> 'w \<Rightarrow> dict list result" where
  "getTaxCodes R w = fetch_all R w ''SELECT Code, Name, Rate from osta'' [] []"

section \<open>SAPB1Adaptor: write operations\<close>

text \<open>
  The attributes of a \<^verbatim>\<open>SAPB1Adaptor\<close>: \<^verbatim>\<open>app\<close>, set by \<^verbatim>\<open>__init__\<close>, and the
  methods and properties of the class. Reading any other attribute of \<^verbatim>\<open>self\<close>
  raises \<^verbatim>\<open>AttributeError\<close>.
\<close>

definition SAPB1Adaptor_attributes :: "string list" where
  "SAPB1Adaptor_attributes =
     [''app'', ''init_app'', ''teardown'', ''info'', ''com_adaptor'', ''sql_adaptor'',
      ''trimValue'', ''getOrders'', ''getMainCurrency'', ''getContacts'', ''insertContact'',
      ''getContactPersonCode'', ''getExpnsCode'', ''getTrnspCode'', ''getExpnsNames'',
      ''getTrnspNames'', ''getPayMethCods'', ''getTaxCodes'', ''insertOrder'', ''cancelOrder'',
      ''_getShipmentItems'', ''getShipments'', ''getItems'', ''getPrices'']"

definition self_attribute :: "string \<Rightarrow> unit result" where
  "self_attribute name =
     (if name \<in> set SAPB1Adaptor_attributes then Inr () else Inl (AttributeError name))"

text \<open>
  A value used as text (\<^verbatim>\<open>len(value)\<close>, \<^verbatim>\<open>value + ' '\<close>) is a string; another
  value raises \<^verbatim>\<open>TypeError\<close> there.
\<close>

definition str_of :: "pyval \<Rightarrow> string result" where
  "str_of v = (case v of PStr s \<Rightarrow> Inr s | _ \<Rightarrow> Inl TypeError)"

definition getstr :: "dict \<Rightarrow> string \<Rightarrow> string result" where
  "getstr d k = bind (getitem d k) str_of"

text \<open>A run of assignments \<^verbatim>\<open>obj.field = d[key]\<close>, in the order written.\<close>

fun assign_from :: "dict \<Rightarrow> (string \<times> string) list \<Rightarrow> dict result" where
  "assign_from d [] = Inr []"
| "assign_from d ((field, key) # rest) =
     bind (getitem d key) (\<lambda>v. bind (assign_from d rest) (\<lambda>fs. Inr ((field, v) # fs)))"

text \<open>\<^verbatim>\<open>xs[0]\<close> of a list of rows, then \<^verbatim>\<open>[k]\<close>.\<close>

definition first_item :: "dict list \<Rightarrow> string \<Rightarrow> pyval result" where
  "first_item rows k = (case rows of [] \<Rightarrow> Inl IndexError | row # _ \<Rightarrow> getitem row k)"

text \<open>
  \<^verbatim>\<open>
  def insertContact(self, cardCode, contact):
      com = self.com_adaptor
      busPartner = com.company.GetBusinessObject(com.constants.oBusinessPartners)
      busPartner.GetByKey(cardCode)
      current = busPartner.ContactEmployees.Count
      if busPartner.ContactEmployees.InternalCode == 0:
          nextLine = 0
      else:
          nextLine = current
      busPartner.ContactEmployees.Add()
      busPartner.ContactEmployees.SetCurrentLine(nextLine)
      name = contact['FirstName'] + ' ' + contact['LastName']
      name = name[0:36] + ' ' + str(time())
      busPartner.ContactEmployees.Name = name
      busPartner.ContactEmployees.FirstName = contact['FirstName']
      busPartner.ContactEmployees.LastName = contact['LastName']
      busPartner.ContactEmployees.Phone1 = contact["Tel1"]
      busPartner.ContactEmployees.E_Mail = contact["E_MailL"]
      address = contact['Address']
      busPartner.ContactEmployees.Address = self.trimValue(address, 100)
      lRetCode = busPartner.Update()
      if lRetCode != 0:
          log = self.company.GetLastErrorDescription()
          current_app.logger.error(log)
          raise Exception(log)
      cntct = {"name": name, "FirstName": contact['FirstName'],
               "LastName": contact['LastName'], "E_MailL": contact["E_MailL"]}
      contacts = self.getContacts(num=1, columns=['cntctcode'], cardCode=cardCode, contact=cntct)
      contactCode = contacts[0]['cntctcode']
      return contactCode
  \<close>
\<close>

definition contact_name :: "'w remote \<Rightarrow> 'w \<Rightarrow> dict \<Rightarrow> string result" where
  "contact_name R w contact =
     bind (getstr contact ''FirstName'') (\<lambda>first.
     bind (getstr contact ''LastName'') (\<lambda>last.
     Inr (slice_to (first @ '' '' @ last) 36 @ '' '' @ py_str (time R w))))"

definition insertContact_fields :: "string \<Rightarrow> dict \<Rightarrow> dict result" where
  "insertContact_fields name contact =
     bind (assign_from contact
             [(''FirstName'', ''FirstName''), (''LastName'', ''LastName''),
              (''Phone1'', ''Tel1''), (''E_Mail'', ''E_MailL'')]) (\<lambda>fs.
     bind (getstr contact ''Address'') (\<lambda>address.
     Inr ((''Name'', PStr name) # fs @ [(''Address'', PStr (trimValue address 100))])))"

definition insertContact :: "'w remote \<Rightarrow> 'w \<Rightarrow> pyval \<Rightarrow> dict \<Rightarrow> pyval result \<times> 'w" where
  "insertContact R w cardCode contact =
     (let nextLine = (if ContactEmployees_InternalCode R w cardCode = 0 then 0
                      else ContactEmployees_Count R w cardCode)
      in case bind (contact_name R w contact) (\<lambda>name.
              bind (insertContact_fields name contact) (\<lambda>fs. Inr (name, fs))) of
           Inl e \<Rightarrow> (Inl e, w)
         | Inr (name, fs) \<Rightarrow>
             (case BusinessPartners_Update R w cardCode nextLine fs of
                (lRetCode, w') \<Rightarrow>
                  if lRetCode \<noteq> 0 then
                    (bind (self_attribute ''company'') (\<lambda>_.
                       Inl (Exception (GetLastErrorDescription R w'))), w')
                  else
                    (bind (assign_from contact
                             [(''FirstName'', ''FirstName''), (''LastName'', ''LastName''),
                              (''E_MailL'', ''E_MailL'')]) (\<lambda>cntct.
                     bind (getContacts R w' 1 [''cntctcode''] cardCode ((''name'', PStr name) # cntct))
                       (\<lambda>contacts. first_item contacts ''cntctcode'')), w')))"

text \<open>
  \<^verbatim>\<open>
  def getContactPersonCode(self, order):
      contact = {'FirstName': order['billto_firstname'],
                 'LastName': order['billto_lastname'],
                 'E_MailL': order['billto_email']}
      contacts = self.getContacts(num=1, columns=['cntctcode'],
                                  cardCode=order['card_code'], contact=contact)
      contactCode = None
      if len(contacts) == 1:
          contactCode = contacts[0]['cntctcode']
      if contactCode is None:
          address = order['billto_address'] + ', ' + order['billto_city'] + ', ' \
                    + order['billto_state'] + ' ' + order['billto_zipcode'] + ', ' \
                    + order['billto_country']
          contact['Address'] = self.trimValue(address, 100)
          contact['Tel1'] = order['billto_telephone']
          contactCode = self.insertContact(order['card_code'], contact)
      return contactCode
  \<close>
\<close>

definition billto_address_text :: "dict \<Rightarrow> string result" where
  "billto_address_text order =
     bind (getstr order ''billto_address'') (\<lambda>a.
     bind (getstr order ''billto_city'') (\<lambda>c.
     bind (getstr order ''billto_state'') (\<lambda>s.
     bind (getstr order ''billto_zipcode'') (\<lambda>z.
     bind (getstr order ''billto_country'') (\<lambda>n.
     Inr (a @ '', '' @ c @ '', '' @ s @ '' '' @ z @ '', '' @ n))))))"

definition new_contact :: "dict \<Rightarrow> dict \<Rightarrow> (pyval \<times> dict) result" where
  "new_contact order contact =
     bind (billto_address_text order) (\<lambda>address.
     bind (getitem order ''billto_telephone'') (\<lambda>tel.
     bind (getitem order ''card_code'') (\<lambda>cardCode.
     Inr (cardCode,
          setitem (setitem contact ''Address'' (PStr (trimValue address 100))) ''Tel1'' tel))))"

definition getContactPersonCode :: "'w remote \<Rightarrow> 'w \<Rightarrow> dict \<Rightarrow> pyval result \<times> 'w" where
  "getContactPersonCode R w order =
     (case bind (assign_from order
                   [(''FirstName'', ''billto_firstname''), (''LastName'', ''billto_lastname''),
                    (''E_MailL'', ''billto_email'')]) (\<lambda>contact.
           bind (getitem order ''card_code'') (\<lambda>cardCode.
           bind (getContacts R w 1 [''cntctcode''] cardCode contact) (\<lambda>contacts.
           bind (if length contacts = 1 then first_item contacts ''cntctcode'' else Inr PNone)
             (\<lambda>contactCode. Inr (contact, contactCode))))) of
        Inl e \<Rightarrow> (Inl e, w)
      | Inr (contact, contactCode) \<Rightarrow>
          if contactCode = PNone then
            (case new_contact order contact of
               Inl e \<Rightarrow> (Inl e, w)
             | Inr (cardCode, contact') \<Rightarrow> insertContact R w cardCode contact')
          else (Inr contactCode, w))"

text \<open>
  The filter by the external order id, as \<^verbatim>\<open>insertOrder\<close> and \<^verbatim>\<open>cancelOrder\<close>
  build it:
  \<^verbatim>\<open>
  if 'fe_order_id_udf' in o.keys():
      params = {o['fe_order_id_udf']: {'value': str(o['fe_order_id'])}}
  else:
      params = {'NumAtCard': {'value': str(o['fe_order_id'])}}
  \<close>
\<close>

definition order_id_field :: "dict \<Rightarrow> string" where
  "order_id_field po =
     (case map_of po ''fe_order_id_udf'' of None \<Rightarrow> ''NumAtCard'' | Some udf \<Rightarrow> py_str udf)"

definition order_id_params :: "dict \<Rightarrow> filters result" where
  "order_id_params po =
     bind (getitem po ''fe_order_id'') (\<lambda>fe.
     Inr [(order_id_field po, [(''value'', PStr (py_str fe))])])"

text \<open>
  \<^verbatim>\<open>
  def cancelOrder(self, o):
      com = self.com_adaptor
      order = com.company.GetBusinessObject(com.constants.oOrders)
      params = None
      if 'fe_order_id_udf' in o.keys():
          params = {o['fe_order_id_udf']: {'value': str(o['fe_order_id'])}}
      else:
          params = {'NumAtCard': {'value': str(o['fe_order_id'])}}
      orders = self.getOrders(num=1, columns=['DocEntry'], params=params)
      if orders:
          boOrderId = orders[0]['DocEntry']
          order.GetByKey(boOrderId)
          lRetCode = order.Cancel()
          if lRetCode != 0:
              error = str(self.company.GetLastError())
              self.logger.error(error)
              raise Exception(error)
          else:
              return boOrderId
      else:
          raise Exception("Order {0} is not found.".format(o['fe_order_id']))
  \<close>
\<close>

definition cancelOrder :: "'w remote \<Rightarrow> 'w \<Rightarrow> dict \<Rightarrow> pyval result \<times> 'w" where
  "cancelOrder R w po =
     (case bind (order_id_params po) (\<lambda>params. getOrders R w 1 [''DocEntry''] params) of
        Inl e \<Rightarrow> (Inl e, w)
      | Inr [] \<Rightarrow>
          (bind (getitem po ''fe_order_id'') (\<lambda>fe.
             Inl (Exception (''Order '' @ py_str fe @ '' is not found.''))), w)
      | Inr (row # rest) \<Rightarrow>
          (case getitem row ''DocEntry'' of
             Inl e \<Rightarrow> (Inl e, w)
           | Inr boOrderId \<Rightarrow>
               (case Orders_Cancel R w boOrderId of
                  (lRetCode, w') \<Rightarrow>
                    if lRetCode \<noteq> 0 then
                      (bind (self_attribute ''company'') (\<lambda>_.
                         Inl (Exception (py_str (GetLastError R w')))), w')
                    else (Inr boOrderId, w'))))"

text \<open>
  \<^verbatim>\<open>insertOrder(self, o)\<close>. The payload \<^verbatim>\<open>o\<close> is the dict of its scalar entries
  together with \<^verbatim>\<open>o['items']\<close>, a list of dicts (\<open>None\<close> when the key is absent).
  The function starts with
  \<^verbatim>\<open>
  o["billto_telephone"] = self.trimValue(o["billto_telephone"], 20)
  o['billto_address'] = self.trimValue(o['billto_address'], 100)
  o['shipto_address'] = self.trimValue(o['shipto_address'], 100)
  \<close>
\<close>

definition trim_entry :: "dict \<Rightarrow> string \<Rightarrow> int \<Rightarrow> dict result" where
  "trim_entry d k maxLength =
     bind (getstr d k) (\<lambda>s. Inr (setitem d k (PStr (trimValue s maxLength))))"

definition insertOrder_trim :: "dict \<Rightarrow> dict result" where
  "insertOrder_trim po =
     bind (trim_entry po ''billto_telephone'' 20) (\<lambda>o1.
     bind (trim_entry o1 ''billto_address'' 100) (\<lambda>o2.
     trim_entry o2 ''shipto_address'' 100))"

text \<open>
  \<^verbatim>\<open>
  order.DocDueDate = o['doc_due_date']
  order.CardCode = o['card_code']
  name = o['billto_firstname'] + ' ' + o['billto_lastname']
  name = name[0:50]
  order.CardName = name
  order.DocCurrency = self.getMainCurrency()
  \<close>
\<close>

definition order_header :: "'w remote \<Rightarrow> 'w \<Rightarrow> dict \<Rightarrow> dict result" where
  "order_header R w po =
     bind (assign_from po [(''DocDueDate'', ''doc_due_date''), (''CardCode'', ''card_code'')]) (\<lambda>fs.
     bind (getstr po ''billto_firstname'') (\<lambda>first.
     bind (getstr po ''billto_lastname'') (\<lambda>last.
     bind (getMainCurrency R w) (\<lambda>currency.
     Inr (fs @ [(''CardName'', PStr (slice_to (first @ '' '' @ last) 50)),
                (''DocCurrency'', currency)])))))"

text \<open>
  The optional entries, gated by the presence of their key, and the external order id:
  \<^verbatim>\<open>
  if 'expenses_freightname' in o.keys():
      order.Expenses.ExpenseCode = self.getExpnsCode(o['expenses_freightname'])
      order.Expenses.LineTotal = o['expenses_linetotal']
      order.Expenses.TaxCode = o['expenses_taxcode']
  if 'discount_percent' in o.keys():
      order.DiscountPercent = o['discount_percent']
  if 'transport_name' in o.keys():
      order.TransportationCode = self.getTrnspCode(o['transport_name'])
  if 'payment_method' in o.keys():
      order.PaymentMethod = o['payment_method']
  if 'fe_order_id_udf' in o.keys():
      order.UserFields.Fields.Item(o['fe_order_id_udf']).Value = str(o['fe_order_id'])
  else:
      order.NumAtCard = str(o['fe_order_id'])
  \<close>
\<close>

definition has_key :: "dict \<Rightarrow> string \<Rightarrow> bool" where
  "has_key d k = (map_of d k \<noteq> None)"

definition order_options :: "'w remote \<Rightarrow> 'w \<Rightarrow> dict \<Rightarrow> dict result" where
  "order_options R w po =
     bind (if has_key po ''expenses_freightname'' then
             bind (getitem po ''expenses_freightname'') (\<lambda>name.
             bind (getExpnsCode R w name) (\<lambda>code.
             bind (assign_from po [(''Expenses.LineTotal'', ''expenses_linetotal''),
                                   (''Expenses.TaxCode'', ''expenses_taxcode'')]) (\<lambda>fs.
             Inr ((''Expenses.ExpenseCode'', code) # fs))))
           else Inr []) (\<lambda>expenses.
     bind (if has_key po ''discount_percent''
           then assign_from po [(''DiscountPercent'', ''discount_percent'')] else Inr []) (\<lambda>discount.
     bind (if has_key po ''transport_name'' then
             bind (getitem po ''transport_name'') (\<lambda>name.
             bind (getTrnspCode R w name) (\<lambda>code. Inr [(''TransportationCode'', code)]))
           else Inr []) (\<lambda>transport.
     bind (if has_key po ''payment_method''
           then assign_from po [(''PaymentMethod'', ''payment_method'')] else Inr []) (\<lambda>payment.
     bind (getitem po ''fe_order_id'') (\<lambda>fe.
     Inr (expenses @ discount @ transport @ payment @
          [((case map_of po ''fe_order_id_udf'' of
               None \<Rightarrow> ''NumAtCard''
             | Some udf \<Rightarrow> ''UserFields.Fields.Item('' @ py_str udf @ '').Value''),
            PStr (py_str fe))]))))))"

text \<open>
  The address entries, \<^verbatim>\<open>order.AddressExtension.BillToCity = o['billto_city']\<close> and
  so on; \<^verbatim>\<open>BillToCounty\<close> is assigned \<^verbatim>\<open>o['billto_country']\<close>.
\<close>

definition order_addresses :: "dict \<Rightarrow> dict result" where
  "order_addresses po =
     assign_from po
       [(''AddressExtension.BillToCity'', ''billto_city''),
        (''AddressExtension.BillToCountry'', ''billto_country''),
        (''AddressExtension.BillToCounty'', ''billto_country''),
        (''AddressExtension.BillToState'', ''billto_state''),
        (''AddressExtension.BillToStreet'', ''billto_address''),
        (''AddressExtension.BillToZipCode'', ''billto_zipcode''),
        (''AddressExtension.ShipToCity'', ''shipto_city''),
        (''AddressExtension.ShipToCountry'', ''shipto_country''),
        (''AddressExtension.ShipToCounty'', ''shipto_county''),
        (''AddressExtension.ShipToState'', ''shipto_state''),
        (''AddressExtension.ShipToStreet'', ''shipto_address''),
        (''AddressExtension.ShipToZipCode'', ''shipto_zipcode'')]"

text \<open>
  \<^verbatim>\<open>
  i = 0
  for item in o['items']:
      order.Lines.Add()
      order.Lines.SetCurrentLine(i)
      order.Lines.ItemCode = item['itemcode']
      order.Lines.Quantity = float(item['quantity'])
      order.Lines.Price = decimal.Decimal(item['price'])
      order.Lines.TaxCode = item['taxcode']
      order.Lines.LineTotal = item['linetotal']
      i = i + 1
  \<close>
  The line of index \<open>i\<close> is the \<open>i\<close>-th element of the list of lines. The
  conversions \<^verbatim>\<open>float\<close> and \<^verbatim>\<open>decimal.Decimal\<close> are the library's.
\<close>

definition order_line :: "'w remote \<Rightarrow> dict \<Rightarrow> dict result" where
  "order_line R item =
     bind (getitem item ''itemcode'') (\<lambda>code.
     bind (getitem item ''quantity'') (\<lambda>q.
     bind (to_float R q) (\<lambda>quantity.
     bind (getitem item ''price'') (\<lambda>p.
     bind (to_Decimal R p) (\<lambda>price.
     bind (assign_from item [(''TaxCode'', ''taxcode''), (''LineTotal'', ''linetotal'')]) (\<lambda>fs.
     Inr ([(''ItemCode'', code), (''Quantity'', quantity), (''Price'', price)] @ fs)))))))"

fun order_lines :: "'w remote \<Rightarrow> dict list \<Rightarrow> dict list result" where
  "order_lines R [] = Inr []"
| "order_lines R (item # rest) =
     bind (order_line R item) (\<lambda>l. bind (order_lines R rest) (\<lambda>ls. Inr (l # ls)))"

definition order_body :: "'w remote \<Rightarrow> 'w \<Rightarrow> dict \<Rightarrow> dict list option \<Rightarrow> (dict \<times> dict list) result" where
  "order_body R w po items =
     bind (order_options R w po) (\<lambda>options.
     bind (order_addresses po) (\<lambda>addresses.
     bind (case items of None \<Rightarrow> Inl (KeyError ''items'') | Some its \<Rightarrow> order_lines R its) (\<lambda>ls.
     Inr (options @ addresses, ls))))"

text \<open>
  The commit and the re-query that ends \<^verbatim>\<open>insertOrder\<close>:
  \<^verbatim>\<open>
  lRetCode = order.Add()
  if lRetCode != 0:
      error = str(self.com_adaptor.company.GetLastError())
      current_app.logger.error(error)
      raise Exception(error)
  else:
      params = None
      if 'fe_order_id_udf' in o.keys():
          params = {o['fe_order_id_udf']: {'value': str(o['fe_order_id'])}}
      else:
          params = {'NumAtCard': {'value': str(o['fe_order_id'])}}
      orders = self.getOrders(num=1, columns=['DocEntry'], params=params)
      boOrderId = orders[0]['DocEntry']
      return boOrderId
  \<close>
\<close>

definition insertOrder_commit :: "'w remote \<Rightarrow> 'w \<Rightarrow> dict \<Rightarrow> dict \<Rightarrow> dict list \<Rightarrow> pyval result \<times> 'w" where
  "insertOrder_commit R w po assigned ls =
     (case Orders_Add R w assigned ls of
        (lRetCode, w') \<Rightarrow>
          if lRetCode \<noteq> 0 then (Inl (Exception (py_str (GetLastError R w'))), w')
          else
            (bind (order_id_params po) (\<lambda>params.
             bind (getOrders R w' 1 [''DocEntry''] params) (\<lambda>orders.
             first_item orders ''DocEntry'')), w'))"

definition insertOrder :: "'w remote \<Rightarrow> 'w \<Rightarrow> dict \<Rightarrow> dict list option \<Rightarrow> pyval result \<times> 'w" where
  "insertOrder R w po items =
     (case bind (insertOrder_trim po) (\<lambda>o'.
           bind (order_header R w o') (\<lambda>header. Inr (o', header))) of
        Inl e \<Rightarrow> (Inl e, w)
      | Inr (o', header) \<Rightarrow>
          (case getContactPersonCode R w o' of
             (Inl e, w1) \<Rightarrow> (Inl e, w1)
           | (Inr contactCode, w1) \<Rightarrow>
               (case order_body R w1 o' items of
                  Inl e \<Rightarrow> (Inl e, w1)
                | Inr (body, ls) \<Rightarrow>
                    insertOrder_commit R w1 o'
                      (header @ [(''ContactPersonCode'', contactCode)] @ body) ls)))"

section \<open>SAPB1Adaptor: shipments\<close>

text \<open>
  \<^verbatim>\<open>
  def _getShipmentItems(self, shipmentId, columns=[]):
      cols = "*"
      if len(columns) > 0:
          cols = " ,".join(columns)
      sql = """SELECT {0} FROM dbo.DLN1""".format(cols)
      params = {'DocEntry': shipmentId}
      if len(params) > 0:
          sql = sql + ' WHERE ' + " AND ".join(["{0} = %({1})s".format(k, k) for k in params.keys()])
      return list(self.sql_adaptor.fetch_all(sql))
  \<close>
\<close>

definition getShipmentItems_sql :: "pyval \<Rightarrow> string list \<Rightarrow> string" where
  "getShipmentItems_sql shipmentId columns =
     (let sql = ''SELECT '' @ cols_of columns @ '' FROM dbo.DLN1'';
          params = [(''DocEntry'', shipmentId)]
      in if length params > 0
         then sql @ '' WHERE '' @ join '' AND '' (map (\<lambda>k. k @ '' = %('' @ k @ '')s'') (map fst params))
         else sql)"

definition getShipmentItems :: "'w remote \<Rightarrow> 'w \<Rightarrow> pyval \<Rightarrow> string list \<Rightarrow> dict list result" where
  "getShipmentItems R w shipmentId columns =
     fetch_all R w (getShipmentItems_sql shipmentId columns) [] []"

text \<open>
  \<^verbatim>\<open>p = {key: v['value'] for key, v in params.keys()}\<close> iterates over the keys of
  the filter map and unpacks each key, a string, into \<^verbatim>\<open>key, v\<close>: a string of two
  characters gives its two characters, any other length raises \<^verbatim>\<open>ValueError\<close>.
  Then \<^verbatim>\<open>v['value']\<close> subscripts a string by a string, which raises
  \<^verbatim>\<open>TypeError\<close>.
\<close>

definition unpack_pair :: "string \<Rightarrow> (string \<times> string) result" where
  "unpack_pair k = (case k of [a, b] \<Rightarrow> Inr ([a], [b]) | _ \<Rightarrow> Inl ValueError)"

definition str_subscript :: "string \<Rightarrow> string \<Rightarrow> pyval result" where
  "str_subscript s k = Inl TypeError"

fun shipment_kwargs :: "dict \<Rightarrow> string list \<Rightarrow> dict result" where
  "shipment_kwargs acc [] = Inr acc"
| "shipment_kwargs acc (k # ks) =
     bind (unpack_pair k) (\<lambda>(key, v).
     bind (str_subscript v ''value'') (\<lambda>x.
     shipment_kwargs (setitem acc key x) ks))"

text \<open>
  A shipment of the result is its row with the entry \<^verbatim>\<open>'items'\<close> set to its line
  items: the pair of the row's other entries and the items.
  \<^verbatim>\<open>
  for shipment in shipments:
      shipmentId = shipment['DocEntry']
      shipment['items'] = self._getShipmentItems(shipmentId, itemColumns)
  \<close>
\<close>

type_synonym shipment = "dict \<times> dict list"

fun attach_items :: "'w remote \<Rightarrow> 'w \<Rightarrow> string list \<Rightarrow> dict list \<Rightarrow> shipment list result" where
  "attach_items R w itemColumns [] = Inr []"
| "attach_items R w itemColumns (row # rest) =
     bind (getitem row ''DocEntry'') (\<lambda>shipmentId.
     bind (getShipmentItems R w shipmentId itemColumns) (\<lambda>its.
     bind (attach_items R w itemColumns rest) (\<lambda>more.
     Inr ((filter (\<lambda>kv. fst kv \<noteq> ''items'') row, its) # more))))"

text \<open>
  \<^verbatim>\<open>
  def getShipments(self, num=100, columns=[], params={}, itemColumns=[]):
      cols = '*'
      if 'DocEntry' not in columns:
          columns.append('DocEntry')
      if len(columns) > 0:
          cols = " ,".join(columns)
      ops = {...}
      sql = """SELECT top {0} {1} FROM dbo.ODLN""".format(num, cols)
      if len(params) > 0:
          sql = sql + ' WHERE ' + " AND ".join(
              ["{0} {1} %({2})s".format(k, ops[k], k) for k in params.keys()])
      p = {key: v['value'] for key, v in params.keys()}
      shipments = list(self.sql_adaptor.fetch_all(sql, **p))
      for shipment in shipments:
          ...
      return shipments
  \<close>
  \<^verbatim>\<open>columns\<close> is a list object, which \<^verbatim>\<open>append\<close> changes in place. The lists live in
  a store, from references to their contents; the default of \<^verbatim>\<open>columns\<close> is one list
  object, made when the function is defined and empty then, and a call that gives no
  \<^verbatim>\<open>columns\<close> (\<open>None\<close> below) uses it.
\<close>

type_synonym ref = nat

type_synonym store = "ref \<Rightarrow> string list"

definition default_columns :: ref where
  "default_columns = 0"

definition columns_ref :: "ref option \<Rightarrow> ref" where
  "columns_ref columns = (case columns of None \<Rightarrow> default_columns | Some r \<Rightarrow> r)"

definition append_DocEntry :: "store \<Rightarrow> ref \<Rightarrow> store" where
  "append_DocEntry s r = (if ''DocEntry'' \<notin> set (s r) then s(r := s r @ [''DocEntry'']) else s)"

definition getShipments_sql :: "int \<Rightarrow> string list \<Rightarrow> filters \<Rightarrow> string" where
  "getShipments_sql num columns params =
     (let sql = ''SELECT top '' @ str_int num @ '' '' @ cols_of columns @ '' FROM dbo.ODLN''
      in if length params > 0
         then sql @ '' WHERE '' @ join '' AND '' (where_clauses params)
         else sql)"

definition getShipments ::
  "'w remote \<Rightarrow> 'w \<Rightarrow> store \<Rightarrow> int \<Rightarrow> ref option \<Rightarrow> filters \<Rightarrow> string list \<Rightarrow> shipment list result \<times> store" where
  "getShipments R w s num columns params itemColumns =
     (let r = columns_ref columns;
          s' = append_DocEntry s r;
          sql = getShipments_sql num (s' r) params
      in (bind (shipment_kwargs [] (map fst params)) (\<lambda>p.
          bind (fetch_all R w sql [] p) (\<lambda>shipments.
          attach_items R w itemColumns shipments)), s'))"

section \<open>Connections of a unit of work\<close>

text \<open>
  \<^verbatim>\<open>
  @property
  def com_adaptor(self):
      ctx = stack.top
      try:
          return ctx._COM
      except AttributeError:
          ctx._COM = com = SapB1ComAdaptor(current_app.config)
          ...
          return com

  def teardown(self, exception):
      ctx = stack.top
      if hasattr(ctx, '_COM'):
          ctx._COM.disconnect()
      if hasattr(ctx, '_SQL'):
          ctx._SQL.disconnect()
  \<close>
  The context \<^verbatim>\<open>ctx\<close> of a unit of work has or has not the attributes \<^verbatim>\<open>_COM\<close> and
  \<^verbatim>\<open>_SQL\<close>. Creating an adaptor connects (\<^verbatim>\<open>company.Connect()\<close>,
  \<^verbatim>\<open>pymssql.connect\<close>) and \<^verbatim>\<open>disconnect\<close> disconnects; the trace records both,
  in order. The constructors and \<^verbatim>\<open>disconnect\<close> are taken to return.
\<close>

datatype connection = COM | SQL

datatype event = Connect connection | Disconnect connection

record ctx =
  has_COM :: bool
  has_SQL :: bool

type_synonym unit_state = "ctx \<times> event list"

definition com_adaptor :: "unit_state \<Rightarrow> unit_state" where
  "com_adaptor st =
     (case st of (c, tr) \<Rightarrow>
        if has_COM c then (c, tr) else (c\<lparr>has_COM := True\<rparr>, tr @ [Connect COM]))"

definition sql_adaptor :: "unit_state \<Rightarrow> unit_state" where
  "sql_adaptor st =
     (case st of (c, tr) \<Rightarrow>
        if has_SQL c then (c, tr) else (c\<lparr>has_SQL := True\<rparr>, tr @ [Connect SQL]))"

definition teardown :: "py_error option \<Rightarrow> unit_state \<Rightarrow> unit_state" where
  "teardown exception st =
     (case st of (c, tr) \<Rightarrow>
        (let tr1 = (if has_COM c then tr @ [Disconnect COM] else tr);
             tr2 = (if has_SQL c then tr1 @ [Disconnect SQL] else tr1)
         in (c, tr2)))"

text \<open>
  A unit of work starts on a fresh context, reads the two properties any number of
  times in any order, and ends with the teardown hook, which the framework calls with
  the exception that ended the unit of work, if any.
\<close>

definition fresh :: unit_state where
  "fresh = (\<lparr>has_COM = False, has_SQL = False\<rparr>, [])"

definition access :: "connection \<Rightarrow> unit_state \<Rightarrow> unit_state" where
  "access c st = (case c of COM \<Rightarrow> com_adaptor st | SQL \<Rightarrow> sql_adaptor st)"

definition unit_of_work :: "connection list \<Rightarrow> py_error option \<Rightarrow> unit_state" where
  "unit_of_work body exception = teardown exception (fold access body fresh)"

text \<open>\<^verbatim>\<open>hasattr(ctx, '_COM')\<close> and \<^verbatim>\<open>hasattr(ctx, '_SQL')\<close>, by connection.\<close>

definition opened :: "connection \<Rightarrow> ctx \<Rightarrow> bool" where
  "opened x c = (case x of COM \<Rightarrow> has_COM c | SQL \<Rightarrow> has_SQL c)"

section \<open>A remote system to evaluate on\<close>

text \<open>
  For the evaluation of the operations on concrete inputs: a remote system that answers
  every statement with the rows \<open>rows\<close> and every commit with the code \<open>code\<close>,
  and whose state counts the commits.
\<close>

definition stub_remote :: "dict list \<Rightarrow> int \<Rightarrow> nat remote" where
  "stub_remote rows code =
     \<lparr> cursor_execute = (\<lambda>w sql args. Inr rows),
       ContactEmployees_Count = (\<lambda>w cardCode. 0),
       ContactEmployees_InternalCode = (\<lambda>w cardCode. 0),
       BusinessPartners_Update = (\<lambda>w cardCode line fs. (code, Suc w)),
       Orders_Add = (\<lambda>w fs ls. (code, Suc w)),
       Orders_Cancel = (\<lambda>w key. (code, Suc w)),
       GetLastErrorDescription = (\<lambda>w. ''Invalid contact''),
       GetLastError = (\<lambda>w. PObj ''(-10, Invalid order)''),
       time = (\<lambda>w. PObj ''1462345678.12''),
       to_float = Inr,
       to_Decimal = Inr \<rparr>"

section \<open>Properties\<close>

subsection \<open>trimValue\<close>

lemma trimValue_short: "int (length v) \<le> maxLength \<Longrightarrow> trimValue v maxLength = v"
  by (simp add: trimValue_def)

lemma trimValue_long:
  "1 \<le> maxLength \<Longrightarrow> maxLength < int (length v) \<Longrightarrow>
     trimValue v maxLength = take (nat maxLength - 1) v"
  by (simp add: trimValue_def slice_to_def nat_diff_distrib)

lemma trimValue_long_length:
  "1 \<le> maxLength \<Longrightarrow> maxLength < int (length v) \<Longrightarrow>
     int (length (trimValue v maxLength)) = maxLength - 1"
  by (simp add: trimValue_long)

text \<open>
  C4. A string longer than its cap should come back as its prefix of exactly the cap's
  length. \<^verbatim>\<open>trimValue\<close> slices \<^verbatim>\<open>value[0:maxLength-1]\<close>, one character short:
  the 150-character \<^verbatim>\<open>billto_address\<close> of an order leaves the first three
  statements of \<^verbatim>\<open>insertOrder\<close> with 99 characters, not 100, while the entries at
  or under their cap are unchanged.
\<close>

theorem insertOrder_trim_150:
  "insertOrder_trim
     [(''billto_telephone'', PStr ''555''),
      (''billto_address'', PStr (replicate 150 (CHR ''a''))),
      (''shipto_address'', PStr ''x'')]
   = Inr [(''billto_telephone'', PStr ''555''),
          (''billto_address'', PStr (replicate 99 (CHR ''a''))),
          (''shipto_address'', PStr ''x'')]"
  by (simp add: insertOrder_trim_def trim_entry_def getstr_def getitem_def bind_def str_of_def
        trimValue_def slice_to_def)

subsection \<open>The row normalizers\<close>

lemma map_of_map_value:
  "map_of (map (\<lambda>(k, v). (k, f v)) row) k = map_option f (map_of row k)"
  by (induction row) auto



subsection \<open>The query builder of getOrders\<close>

lemma str_int_1: "str_int 1 = ''1''"
  by (simp add: str_int_def str_nat.simps digit_char_def)

lemma where_clauses_nth:
  "i < length params \<Longrightarrow>
     where_clauses params ! i =
       fst (params ! i) @ '' '' @
       (case map_of (snd (params ! i)) ''op'' of None \<Rightarrow> ''='' | Some opv \<Rightarrow> py_str opv) @
       '' %('' @ fst (params ! i) @ '')s''"
  by (simp add: where_clauses_def ops_of_def where_clause_def filter_op_def
        split: prod.splits option.splits)

text \<open>The clauses are a function of the keys and of the \<^verbatim>\<open>'op'\<close> entries alone.\<close>

lemma where_clauses_zip:
  "where_clauses params =
     map (\<lambda>ko. fst ko @ '' '' @ (case snd ko of None \<Rightarrow> ''='' | Some opv \<Rightarrow> py_str opv) @
                '' %('' @ fst ko @ '')s'')
       (zip (map fst params) (map (\<lambda>kf. map_of (snd kf) ''op'') params))"
  by (induction params)
     (auto simp: where_clauses_def ops_of_def where_clause_def filter_op_def split: option.splits)

lemma filter_values_all2:
  "filter_values params = Inr p \<Longrightarrow>
     list_all2 (\<lambda>kf kv. fst kv = fst kf \<and> map_of (snd kf) ''value'' = Some (snd kv)) params p"
proof (induction params arbitrary: p)
  case Nil
  then show ?case by simp
next
  case (Cons kf rest)
  obtain key f where kf: "kf = (key, f)" by (cases kf)
  from Cons.prems kf obtain v d where
    v: "map_of f ''value'' = Some v" and d: "filter_values rest = Inr d" and p: "p = (key, v) # d"
    by (auto simp: bind_def getitem_def split: option.splits sum.splits)
  from Cons.IH [OF d] v p kf show ?case by simp
qed

text \<open>
  C6. The statement \<^verbatim>\<open>getOrders\<close> builds: for the empty filter map it is the
  \<^verbatim>\<open>SELECT\<close> alone, with no \<^verbatim>\<open>WHERE\<close> appended; for a filter map that is not
  empty it is that \<^verbatim>\<open>SELECT\<close>, then \<^verbatim>\<open>WHERE\<close>, then one clause per filter key,
  joined by \<^verbatim>\<open>AND\<close> in the order of the keys. The clause of a key is
  \<^verbatim>\<open>key op %(key)s\<close>, with \<^verbatim>\<open>=\<close> for \<^verbatim>\<open>op\<close> when the filter has no \<^verbatim>\<open>'op'\<close>
  entry. The values go to the parameter mapping, key by key, which is handed to the
  cursor beside the statement; the statement is the same for two filter maps that have
  the same keys and \<^verbatim>\<open>'op'\<close> entries, whatever their values.
\<close>

theorem getOrders_sql_clauses:
  "getOrders_sql num columns [] =
     ''SELECT top '' @ str_int num @ '' '' @ cols_of columns @ '' FROM dbo.ORDR''
   \<and> (params \<noteq> [] \<longrightarrow>
        getOrders_sql num columns params =
          getOrders_sql num columns [] @ '' WHERE '' @ join '' AND '' (where_clauses params))
   \<and> length (where_clauses params) = length params
   \<and> (\<forall>i<length params.
        where_clauses params ! i =
          fst (params ! i) @ '' '' @
          (case map_of (snd (params ! i)) ''op'' of None \<Rightarrow> ''='' | Some opv \<Rightarrow> py_str opv) @
          '' %('' @ fst (params ! i) @ '')s'')
   \<and> (filter_values params = Inr p \<longrightarrow>
        list_all2 (\<lambda>kf kv. fst kv = fst kf \<and> map_of (snd kf) ''value'' = Some (snd kv)) params p \<and>
        getOrders R w num columns params =
          bind (cursor_execute R w (getOrders_sql num columns params) (ArgsDict p))
            (\<lambda>rows. Inr (map getOrders_order rows)))
   \<and> (map fst params' = map fst params \<and>
        map (\<lambda>kf. map_of (snd kf) ''op'') params' = map (\<lambda>kf. map_of (snd kf) ''op'') params \<longrightarrow>
        getOrders_sql num columns params' = getOrders_sql num columns params)"
proof (intro conjI impI allI)
  show "getOrders_sql num columns [] =
          ''SELECT top '' @ str_int num @ '' '' @ cols_of columns @ '' FROM dbo.ORDR''"
    by (simp add: getOrders_sql_def)
  show "getOrders_sql num columns params =
          getOrders_sql num columns [] @ '' WHERE '' @ join '' AND '' (where_clauses params)"
    if "params \<noteq> []" using that by (simp add: getOrders_sql_def)
  show "length (where_clauses params) = length params"
    by (simp add: where_clauses_def ops_of_def)
  show "where_clauses params ! i =
          fst (params ! i) @ '' '' @
          (case map_of (snd (params ! i)) ''op'' of None \<Rightarrow> ''='' | Some opv \<Rightarrow> py_str opv) @
          '' %('' @ fst (params ! i) @ '')s''" if "i < length params" for i
    using that by (rule where_clauses_nth)
  show "list_all2 (\<lambda>kf kv. fst kv = fst kf \<and> map_of (snd kf) ''value'' = Some (snd kv)) params p"
    if "filter_values params = Inr p" using that by (rule filter_values_all2)
  show "getOrders R w num columns params =
          bind (cursor_execute R w (getOrders_sql num columns params) (ArgsDict p))
            (\<lambda>rows. Inr (map getOrders_order rows))"
    if "filter_values params = Inr p" using that by (simp add: getOrders_def bind_def)
  show "getOrders_sql num columns params' = getOrders_sql num columns params"
    if h: "map fst params' = map fst params \<and>
        map (\<lambda>kf. map_of (snd kf) ''op'') params' = map (\<lambda>kf. map_of (snd kf) ''op'') params"
  proof -
    from h have "length params' = length params" by (metis length_map)
    moreover from h have "where_clauses params' = where_clauses params"
      by (simp add: where_clauses_zip)
    ultimately show ?thesis by (simp add: getOrders_sql_def Let_def)
  qed
qed

theorem getOrders_sql_clauses_witness:
  "getOrders_sql 5 [] [(''DocDate'', [(''value'', PStr ''2016-01-01''), (''op'', PStr ''>='')]),
                       (''CardCode'', [(''value'', PStr ''C1'')])]
     = ''SELECT top 5 * FROM dbo.ORDR WHERE DocDate >= %(DocDate)s AND CardCode = %(CardCode)s''
   \<and> where_clauses [(''DocDate'', [(''value'', PStr ''2016-01-01''), (''op'', PStr ''>='')]),
                    (''CardCode'', [(''value'', PStr ''C1'')])] ! 1 = ''CardCode = %(CardCode)s''
   \<and> getOrders_sql 5 [] [(''DocDate'', [(''value'', PStr ''1999-12-31''), (''op'', PStr ''>='')]),
                         (''CardCode'', [(''value'', PStr ''C2'')])]
     = getOrders_sql 5 [] [(''DocDate'', [(''value'', PStr ''2016-01-01''), (''op'', PStr ''>='')]),
                           (''CardCode'', [(''value'', PStr ''C1'')])]
   \<and> getOrders (stub_remote [[(''DocEntry'', PInt 7)]] 0) 0 5 []
        [(''DocDate'', [(''value'', PStr ''2016-01-01''), (''op'', PStr ''>='')]),
         (''CardCode'', [(''value'', PStr ''C1'')])] = Inr [[(''DocEntry'', PStr ''7'')]]"
  using getOrders_sql_clauses
    [of 5 "[]" "[(''DocDate'', [(''value'', PStr ''2016-01-01''), (''op'', PStr ''>='')]),
                 (''CardCode'', [(''value'', PStr ''C1'')])]"
       "[(''DocDate'', PStr ''2016-01-01''), (''CardCode'', PStr ''C1'')]"
       "stub_remote [[(''DocEntry'', PInt 7)]] 0" 0
       "[(''DocDate'', [(''value'', PStr ''1999-12-31''), (''op'', PStr ''>='')]),
         (''CardCode'', [(''value'', PStr ''C2'')])]"]
  by (simp add: str_int_def str_nat.simps digit_char_def cols_of_def where_clauses_def ops_of_def
       where_clause_def filter_op_def bind_def getitem_def stub_remote_def getOrders_order_def)

subsection \<open>cancelOrder\<close>

lemma order_lookup_sql:
  "getOrders_sql 1 [''DocEntry''] [(field, [(''value'', v)])] =
     ''SELECT top 1 DocEntry FROM dbo.ORDR WHERE '' @ field @ '' = %('' @ field @ '')s''"
  by (simp add: getOrders_sql_def str_int_1 cols_of_def where_clauses_def ops_of_def
        where_clause_def filter_op_def)

lemma order_lookup:
  "map_of po ''fe_order_id'' = Some fe \<Longrightarrow>
     bind (order_id_params po) (\<lambda>params. getOrders R w 1 [''DocEntry''] params) =
       bind (cursor_execute R w
               (''SELECT top 1 DocEntry FROM dbo.ORDR WHERE '' @ order_id_field po @
                '' = %('' @ order_id_field po @ '')s'')
               (ArgsDict [(order_id_field po, PStr (py_str fe))]))
         (\<lambda>rows. Inr (map getOrders_order rows))"
  by (simp add: order_id_params_def getitem_def bind_def getOrders_def order_lookup_sql)

lemma getOrders_order_item:
  "map_of row k = Some d \<Longrightarrow> getitem (getOrders_order row) k = Inr (getOrders_value d)"
  by (simp add: getitem_def getOrders_order_def map_of_map_value)

text \<open>
  C5. \<^verbatim>\<open>cancelOrder\<close> looks the order up by its external id \<^verbatim>\<open>o['fe_order_id']\<close>,
  in the field \<^verbatim>\<open>o['fe_order_id_udf']\<close> names when that key is present and in
  \<^verbatim>\<open>NumAtCard\<close> otherwise. When the lookup returns no row, the operation fails with
  the exception \<^verbatim>\<open>Order <id> is not found.\<close> and commits nothing. When it returns
  a row and the remote \<^verbatim>\<open>Cancel\<close> answers 0, the operation returns the
  \<^verbatim>\<open>DocEntry\<close> of the first row, as \<^verbatim>\<open>getOrders\<close> normalizes it.
\<close>

theorem cancelOrder_outcomes:
  "(map_of po ''fe_order_id_udf'' = None \<longrightarrow> order_id_field po = ''NumAtCard'')
   \<and> (map_of po ''fe_order_id_udf'' = Some (PStr udf) \<longrightarrow> order_id_field po = udf)
   \<and> (map_of po ''fe_order_id'' = Some fe \<longrightarrow>
        cursor_execute R w
          (''SELECT top 1 DocEntry FROM dbo.ORDR WHERE '' @ order_id_field po @
           '' = %('' @ order_id_field po @ '')s'')
          (ArgsDict [(order_id_field po, PStr (py_str fe))]) = Inr [] \<longrightarrow>
        cancelOrder R w po = (Inl (Exception (''Order '' @ py_str fe @ '' is not found.'')), w))
   \<and> (map_of po ''fe_order_id'' = Some fe \<longrightarrow>
        cursor_execute R w
          (''SELECT top 1 DocEntry FROM dbo.ORDR WHERE '' @ order_id_field po @
           '' = %('' @ order_id_field po @ '')s'')
          (ArgsDict [(order_id_field po, PStr (py_str fe))]) = Inr (row # rest) \<longrightarrow>
        map_of row ''DocEntry'' = Some d \<longrightarrow>
        Orders_Cancel R w (getOrders_value d) = (0, w') \<longrightarrow>
        cancelOrder R w po = (Inr (getOrders_value d), w'))"
proof (intro conjI impI)
  show "order_id_field po = ''NumAtCard''" if "map_of po ''fe_order_id_udf'' = None"
    using that by (simp add: order_id_field_def)
  show "order_id_field po = udf" if "map_of po ''fe_order_id_udf'' = Some (PStr udf)"
    using that by (simp add: order_id_field_def)
  show "cancelOrder R w po = (Inl (Exception (''Order '' @ py_str fe @ '' is not found.'')), w)"
    if fe: "map_of po ''fe_order_id'' = Some fe"
    and none: "cursor_execute R w
          (''SELECT top 1 DocEntry FROM dbo.ORDR WHERE '' @ order_id_field po @
           '' = %('' @ order_id_field po @ '')s'')
          (ArgsDict [(order_id_field po, PStr (py_str fe))]) = Inr []"
  proof -
    have "bind (order_id_params po) (\<lambda>params. getOrders R w 1 [''DocEntry''] params) = Inr []"
      unfolding order_lookup [OF fe] none by (simp add: bind_def)
    then show ?thesis using fe by (simp add: cancelOrder_def getitem_def bind_def)
  qed
  show "cancelOrder R w po = (Inr (getOrders_value d), w')"
    if fe: "map_of po ''fe_order_id'' = Some fe"
    and some: "cursor_execute R w
          (''SELECT top 1 DocEntry FROM dbo.ORDR WHERE '' @ order_id_field po @
           '' = %('' @ order_id_field po @ '')s'')
          (ArgsDict [(order_id_field po, PStr (py_str fe))]) = Inr (row # rest)"
    and d: "map_of row ''DocEntry'' = Some d"
    and ok: "Orders_Cancel R w (getOrders_value d) = (0, w')"
  proof -
    have "bind (order_id_params po) (\<lambda>params. getOrders R w 1 [''DocEntry''] params) =
            Inr (getOrders_order row # map getOrders_order rest)"
      unfolding order_lookup [OF fe] some by (simp add: bind_def)
    then show ?thesis using ok getOrders_order_item [OF d] by (simp add: cancelOrder_def)
  qed
qed

theorem cancelOrder_outcomes_witness:
  "cancelOrder (stub_remote [] 0) 0 [(''fe_order_id'', PInt 100000012)]
     = (Inl (Exception ''Order 100000012 is not found.''), 0)
   \<and> cancelOrder (stub_remote [[(''DocEntry'', PInt 431)]] 0) 0
        [(''fe_order_id_udf'', PStr ''U_WebOrder''), (''fe_order_id'', PInt 100000012)]
     = (Inr (PStr ''431''), 1)"
  using cancelOrder_outcomes
      [of "[(''fe_order_id'', PInt 100000012)]" "''U_WebOrder''" "PInt 100000012"
         "stub_remote [] 0" 0]
    cancelOrder_outcomes
      [of "[(''fe_order_id_udf'', PStr ''U_WebOrder''), (''fe_order_id'', PInt 100000012)]"
         "''U_WebOrder''" "PInt 100000012" "stub_remote [[(''DocEntry'', PInt 431)]] 0" 0
         "[(''DocEntry'', PInt 431)]" "[]" "PInt 431" 1]
  by (simp add: stub_remote_def str_int_def str_nat.simps digit_char_def)

subsection \<open>insertContact\<close>

text \<open>
  The name of a new contact: the first 36 characters of \<^verbatim>\<open>first last\<close>, a space,
  and the text of the clock reading.
\<close>

lemma contact_name_layout:
  "map_of contact ''FirstName'' = Some (PStr fn) \<Longrightarrow>
   map_of contact ''LastName'' = Some (PStr ln) \<Longrightarrow>
     contact_name R w contact =
       Inr (take 36 (fn @ '' '' @ ln) @ '' '' @ py_str (time R w))"
  by (simp add: contact_name_def getstr_def getitem_def bind_def str_of_def slice_to_def)

subsection \<open>Commits that fail\<close>

lemma self_company: "self_attribute ''company'' = Inl (AttributeError ''company'')"
  by (simp add: self_attribute_def SAPB1Adaptor_attributes_def)

text \<open>
  \<^verbatim>\<open>insertOrder\<close> reads the last error through \<^verbatim>\<open>self.com_adaptor.company\<close>: a
  non-zero code of \<^verbatim>\<open>Add\<close> raises an exception that carries its text.
\<close>

lemma insertOrder_commit_failure:
  "Orders_Add R w assigned ls = (lRetCode, w') \<Longrightarrow> lRetCode \<noteq> 0 \<Longrightarrow>
     insertOrder_commit R w po assigned ls = (Inl (Exception (py_str (GetLastError R w'))), w')"
  by (simp add: insertOrder_commit_def)

text \<open>
  \<^verbatim>\<open>cancelOrder\<close> reads it through \<^verbatim>\<open>self.company\<close>, as \<^verbatim>\<open>insertContact\<close>
  does: a non-zero code of \<^verbatim>\<open>Cancel\<close> raises \<^verbatim>\<open>AttributeError\<close>.
\<close>

lemma cancelOrder_commit_failure:
  "bind (order_id_params po) (\<lambda>params. getOrders R w 1 [''DocEntry''] params) = Inr (row # rest) \<Longrightarrow>
   getitem row ''DocEntry'' = Inr boOrderId \<Longrightarrow>
   Orders_Cancel R w boOrderId = (lRetCode, w') \<Longrightarrow> lRetCode \<noteq> 0 \<Longrightarrow>
     cancelOrder R w po = (Inl (AttributeError ''company''), w')"
  by (simp add: cancelOrder_def bind_def self_company)

text \<open>
  C1. When the commit of a write operation answers a non-zero code, the operation
  should raise an exception that carries the last-error text of the remote system.
  \<^verbatim>\<open>insertContact\<close> does not: once the name and the fields of the contact are built
  and \<^verbatim>\<open>Update\<close> answers a non-zero code, it evaluates \<^verbatim>\<open>self.company\<close>, which a
  \<^verbatim>\<open>SAPB1Adaptor\<close> does not have, and so raises \<^verbatim>\<open>AttributeError\<close>, not the
  exception with the text of \<^verbatim>\<open>GetLastErrorDescription()\<close>. There is no retry: the
  state of the remote system is the one the single \<^verbatim>\<open>Update\<close> left.
\<close>

theorem insertContact_commit_failure:
  "contact_name R w contact = Inr name \<Longrightarrow>
   insertContact_fields name contact = Inr fs \<Longrightarrow>
   BusinessPartners_Update R w cardCode
     (if ContactEmployees_InternalCode R w cardCode = 0 then 0
      else ContactEmployees_Count R w cardCode) fs = (lRetCode, w') \<Longrightarrow>
   lRetCode \<noteq> 0 \<Longrightarrow>
     insertContact R w cardCode contact = (Inl (AttributeError ''company''), w')
     \<and> insertContact R w cardCode contact \<noteq> (Inl (Exception (GetLastErrorDescription R w')), w')"
  by (simp add: insertContact_def bind_def self_company)

theorem insertContact_commit_failure_witness:
  "insertContact (stub_remote [] (-10)) 0 (PStr ''C20000'')
     [(''FirstName'', PStr ''Ana''), (''LastName'', PStr ''Lopez''), (''Tel1'', PStr ''555''),
      (''E_MailL'', PStr ''ana@example.com''), (''Address'', PStr ''Calle 1'')]
   = (Inl (AttributeError ''company''), 1)"
  using insertContact_commit_failure [of "stub_remote [] (-10)" 0
     "[(''FirstName'', PStr ''Ana''), (''LastName'', PStr ''Lopez''), (''Tel1'', PStr ''555''),
      (''E_MailL'', PStr ''ana@example.com''), (''Address'', PStr ''Calle 1'')]"
     "''Ana Lopez 1462345678.12''"
     "[(''Name'', PStr ''Ana Lopez 1462345678.12''), (''FirstName'', PStr ''Ana''),
       (''LastName'', PStr ''Lopez''), (''Phone1'', PStr ''555''),
       (''E_Mail'', PStr ''ana@example.com''), (''Address'', PStr ''Calle 1'')]"
     "PStr ''C20000''" "-10" 1]
  by (simp add: stub_remote_def contact_name_def insertContact_fields_def getstr_def getitem_def
        bind_def str_of_def slice_to_def trimValue_def)

subsection \<open>Values in the statements of getItems and getPrices\<close>

text \<open>
  C2. The statement of a read operation should not contain a value the caller gives;
  values should reach the cursor as parameters. \<^verbatim>\<open>getItems\<close> and \<^verbatim>\<open>getPrices\<close>
  format the warehouse \<^verbatim>\<open>whs\<close> and the item code \<^verbatim>\<open>code\<close> into the statement,
  between single quotes, and execute it with no parameters at all; two different
  warehouses give two different statements.
\<close>

theorem getItems_getPrices_interpolate:
  "whs \<noteq> [] \<Longrightarrow> code \<noteq> [] \<Longrightarrow>
   getItems_sql limit columns (Some whs) c =
     ''SELECT top '' @ str_int limit @ '' '' @
     (if truthy columns then text_of columns
      else ''ItemCode, ItemName, ItmsGrpCod, UgpEntry, U_MARCA, U_DIVISION, AvgPrice, CreateDate, UpdateDate'') @
     '' FROM dbo.OITM\<newline>                     WHERE ItemCode in\<newline>                         (SELECT ItemCode FROM dbo.OITW\<newline>                          WHERE WhsCode = '' @ [CHR 0x27] @ whs @ [CHR 0x27] @ '')''
   \<and> getItems_sql limit columns None (Some code) =
     ''SELECT '' @
     (if truthy columns then text_of columns
      else ''ItemCode, ItemName, ItmsGrpCod, UgpEntry, U_MARCA, U_DIVISION, AvgPrice, CreateDate, UpdateDate'') @
     '' FROM dbo.OITM\<newline>                     WHERE ItemCode = '' @ [CHR 0x27] @ code @ [CHR 0x27]
   \<and> getPrices_sql limit columns (Some whs) c =
     ''SELECT top '' @ str_int limit @ '' '' @
     (if truthy columns then text_of columns else ''ItemCode, Price, Currency, Ovrwritten, Factor'') @
     '' FROM dbo.ITM1\<newline>                     WHERE PriceList = 2\<newline>                     AND ItemCode in\<newline>                         (SELECT ItemCode FROM dbo.OITW\<newline>                          WHERE WhsCode = '' @ [CHR 0x27] @ whs @ [CHR 0x27] @ '')''
   \<and> getPrices_sql limit columns None (Some code) =
     ''SELECT '' @
     (if truthy columns then text_of columns else ''ItemCode, Price, Currency, Ovrwritten, Factor'') @
     '' FROM dbo.ITM1\<newline>                     WHERE PriceList = 2\<newline>                     AND ItemCode = '' @ [CHR 0x27] @ code @ [CHR 0x27]
   \<and> getItems R w limit columns x y =
       bind (cursor_execute R w (getItems_sql limit columns x y) ArgsNone)
         (\<lambda>rows. Inr (map fetch_all_item rows))
   \<and> getPrices R w limit columns x y =
       bind (cursor_execute R w (getPrices_sql limit columns x y) ArgsNone)
         (\<lambda>rows. Inr (map fetch_all_item rows))
   \<and> (whs' \<noteq> [] \<longrightarrow> whs' \<noteq> whs \<longrightarrow>
        getItems_sql limit columns (Some whs') c \<noteq> getItems_sql limit columns (Some whs) c \<and>
        getPrices_sql limit columns (Some whs') c \<noteq> getPrices_sql limit columns (Some whs) c)"
  by (simp add: getItems_sql_def getPrices_sql_def truthy_def text_of_def getItems_def
        getPrices_def fetch_all_def execute_def execute_args_def Let_def str_int_def
        str_nat.simps digit_char_def)

theorem getItems_getPrices_interpolate_witness:
  "getItems_sql 1 (Some ''ItemCode'') (Some ''01' OR '1'='1'') None =
     ''SELECT top 1 ItemCode FROM dbo.OITM\<newline>                     WHERE ItemCode in\<newline>                         (SELECT ItemCode FROM dbo.OITW\<newline>                          WHERE WhsCode = '01' OR '1'='1')''
   \<and> getPrices_sql 1 (Some ''Price'') None (Some ''A1' OR '1'='1'') =
     ''SELECT Price FROM dbo.ITM1\<newline>                     WHERE PriceList = 2\<newline>                     AND ItemCode = 'A1' OR '1'='1'' @ [CHR 0x27]
   \<and> getItems (stub_remote [[(''ItemCode'', PStr ''A1'')]] 0) 0 1 (Some ''ItemCode'')
         (Some ''01' OR '1'='1'') None
       = Inr [[(''ItemCode'', PStr ''A1'')]]
   \<and> getItems_sql 1 (Some ''ItemCode'') (Some ''01'') None \<noteq>
       getItems_sql 1 (Some ''ItemCode'') (Some ''01' OR '1'='1'') None"
  using getItems_getPrices_interpolate
          [of "''01' OR '1'='1''" "''A1' OR '1'='1''" 1 "Some ''ItemCode''" None
              "stub_remote [[(''ItemCode'', PStr ''A1'')]] 0" 0 "Some ''01' OR '1'='1''" None
              "''01''"]
  by (simp add: getItems_sql_def getPrices_sql_def Let_def str_int_def str_nat.simps
        digit_char_def truthy_def text_of_def stub_remote_def bind_def fetch_all_item_def)

subsection \<open>getShipments\<close>

lemma shipment_kwargs_raises:
  "ks \<noteq> [] \<Longrightarrow>
     shipment_kwargs acc ks = Inl (if length (hd ks) = 2 then TypeError else ValueError)"
proof (cases ks)
  case Nil
  assume "ks \<noteq> []"
  with Nil show ?thesis by simp
next
  case (Cons k rest)
  show ?thesis
  proof (cases "length k = 2")
    case True
    then obtain a b where "k = [a, b]"
      by (cases k; cases "tl k"; cases "tl (tl k)") auto
    with Cons show ?thesis by (simp add: unpack_pair_def bind_def str_subscript_def)
  next
    case False
    then have "unpack_pair k = Inl ValueError"
      by (auto simp: unpack_pair_def split: list.splits)
    with Cons False show ?thesis by (simp add: bind_def)
  qed
qed

text \<open>
  C3. With a filter map that is not empty, \<^verbatim>\<open>getShipments\<close> should return the
  shipments that match, each with its items. It returns nothing: building the keyword
  arguments from \<^verbatim>\<open>params.keys()\<close> raises on the first key, \<^verbatim>\<open>TypeError\<close> when
  the key has two characters and \<^verbatim>\<open>ValueError\<close> otherwise, before any statement is
  executed.
\<close>

theorem getShipments_filters_raise:
  "params \<noteq> [] \<Longrightarrow>
     fst (getShipments R w s num columns params itemColumns) =
       Inl (if length (fst (hd params)) = 2 then TypeError else ValueError)"
  using shipment_kwargs_raises [of "map fst params" "[]"]
  by (simp add: getShipments_def Let_def bind_def hd_map)

theorem getShipments_filters_raise_witness:
  "fst (getShipments (stub_remote [[(''DocEntry'', PInt 3)]] 0) 0 (\<lambda>r. []) 100 None
          [(''CardCode'', [(''value'', PStr ''C20000'')])] []) = Inl ValueError"
  using getShipments_filters_raise
          [of "[(''CardCode'', [(''value'', PStr ''C20000'')])]"
              "stub_remote [[(''DocEntry'', PInt 3)]] 0" 0 "\<lambda>r. []" 100 None "[]"]
  by simp

text \<open>
  C10. \<^verbatim>\<open>getShipments\<close> appends \<^verbatim>\<open>'DocEntry'\<close> to the list it is given as
  \<^verbatim>\<open>columns\<close> when the list does not hold it, in place, and changes no other list.
  A call with no \<^verbatim>\<open>columns\<close> does so to the default list: empty at first, it is
  \<^verbatim>\<open>['DocEntry']\<close> after the first such call and stays so through every later call,
  with or without \<^verbatim>\<open>columns\<close>. From then on a call with no \<^verbatim>\<open>columns\<close> selects
  the column \<^verbatim>\<open>DocEntry\<close> alone, not \<^verbatim>\<open>*\<close>; so does the first call, since
  the append comes before the column text is built.
\<close>

theorem getShipments_default_columns:
  "(''DocEntry'' \<notin> set (s r) \<longrightarrow>
      snd (getShipments R w s num (Some r) params itemColumns) r = s r @ [''DocEntry''])
   \<and> (r' \<noteq> columns_ref columns \<longrightarrow>
      snd (getShipments R w s num columns params itemColumns) r' = s r')
   \<and> (s default_columns = [] \<longrightarrow>
      snd (getShipments R w s num None params itemColumns) default_columns = [''DocEntry''])
   \<and> (s default_columns = [''DocEntry''] \<longrightarrow>
      snd (getShipments R w s num columns params itemColumns) default_columns = [''DocEntry''])
   \<and> (s default_columns = [''DocEntry''] \<longrightarrow>
      fst (getShipments R w s num None params itemColumns) =
        bind (shipment_kwargs [] (map fst params)) (\<lambda>p.
        bind (fetch_all R w (getShipments_sql num [''DocEntry''] params) [] p)
          (attach_items R w itemColumns)))
   \<and> (s default_columns = [] \<longrightarrow>
      fst (getShipments R w s num None params itemColumns) =
        bind (shipment_kwargs [] (map fst params)) (\<lambda>p.
        bind (fetch_all R w (getShipments_sql num [''DocEntry''] params) [] p)
          (attach_items R w itemColumns)))
   \<and> getShipments_sql num [''DocEntry''] [] =
        ''SELECT top '' @ str_int num @ '' DocEntry FROM dbo.ODLN''"
proof (intro conjI impI)
  show "snd (getShipments R w s num (Some r) params itemColumns) r = s r @ [''DocEntry'']"
    if "''DocEntry'' \<notin> set (s r)"
    using that by (simp add: getShipments_def Let_def append_DocEntry_def columns_ref_def)
  show "snd (getShipments R w s num columns params itemColumns) r' = s r'"
    if "r' \<noteq> columns_ref columns"
    using that by (simp add: getShipments_def Let_def append_DocEntry_def)
  show "snd (getShipments R w s num None params itemColumns) default_columns = [''DocEntry'']"
    if "s default_columns = []"
    using that by (simp add: getShipments_def Let_def append_DocEntry_def columns_ref_def)
  show "snd (getShipments R w s num columns params itemColumns) default_columns = [''DocEntry'']"
    if "s default_columns = [''DocEntry'']"
    using that by (simp add: getShipments_def Let_def append_DocEntry_def)
  show "fst (getShipments R w s num None params itemColumns) =
        bind (shipment_kwargs [] (map fst params)) (\<lambda>p.
        bind (fetch_all R w (getShipments_sql num [''DocEntry''] params) [] p)
          (attach_items R w itemColumns))"
    if "s default_columns = [''DocEntry'']"
    using that by (simp add: getShipments_def Let_def append_DocEntry_def columns_ref_def)
  show "fst (getShipments R w s num None params itemColumns) =
        bind (shipment_kwargs [] (map fst params)) (\<lambda>p.
        bind (fetch_all R w (getShipments_sql num [''DocEntry''] params) [] p)
          (attach_items R w itemColumns))"
    if "s default_columns = []"
    using that by (simp add: getShipments_def Let_def append_DocEntry_def columns_ref_def)
  show "getShipments_sql num [''DocEntry''] [] =
        ''SELECT top '' @ str_int num @ '' DocEntry FROM dbo.ODLN''"
    by (simp add: getShipments_sql_def cols_of_def)
qed

theorem getShipments_default_columns_witness:
  "snd (getShipments (stub_remote [] 0) 0 (\<lambda>r. []) 100 None [] []) default_columns = [''DocEntry'']
   \<and> snd (getShipments (stub_remote [] 0) 0 ((\<lambda>r. [])(5 := [''CardCode''])) 100 (Some 5) [] []) 5
       = [''CardCode'', ''DocEntry'']
   \<and> fst (getShipments (stub_remote [] 0) 0
            (snd (getShipments (stub_remote [] 0) 0 (\<lambda>r. []) 100 None [] [])) 100 None [] [])
       = bind (fetch_all (stub_remote [] 0) 0 ''SELECT top 100 DocEntry FROM dbo.ODLN'' [] [])
           (attach_items (stub_remote [] 0) 0 [])"
  using getShipments_default_columns
          [of "(\<lambda>r. [])(5 := [''CardCode''])" 5 "stub_remote [] 0" 0 100 "[]" "[]" 7 "Some 5"]
        getShipments_default_columns
          [of "snd (getShipments (stub_remote [] 0) 0 (\<lambda>r. []) 100 None [] [])" 5
              "stub_remote [] 0" 0 100 "[]" "[]" 7 None]
        getShipments_default_columns
          [of "\<lambda>r. []" 5 "stub_remote [] 0" 0 100 "[]" "[]" 7 None]
  by (simp add: default_columns_def columns_ref_def str_int_def str_nat.simps digit_char_def
        bind_def)

subsection \<open>The connections of a unit of work\<close>

lemma access_opened: "opened x (fst (access y st)) = (opened x (fst st) \<or> y = x)"
  by (cases st; cases x; cases y)
     (simp_all add: access_def com_adaptor_def sql_adaptor_def opened_def)

lemma access_connects:
  "count_list (snd (access y st)) (Connect x) =
     count_list (snd st) (Connect x) + (if y = x \<and> \<not> opened x (fst st) then 1 else 0)"
  by (cases st; cases x; cases y)
     (simp_all add: access_def com_adaptor_def sql_adaptor_def opened_def)

lemma access_disconnects:
  "count_list (snd (access y st)) (Disconnect x) = count_list (snd st) (Disconnect x)"
  by (cases st; cases y) (simp_all add: access_def com_adaptor_def sql_adaptor_def)

lemma fold_access_opened:
  "opened x (fst (fold access body st)) = (opened x (fst st) \<or> x \<in> set body)"
  by (induction body arbitrary: st) (auto simp: access_opened)

lemma fold_access_connects:
  "count_list (snd (fold access body st)) (Connect x) =
     count_list (snd st) (Connect x) + (if x \<in> set body \<and> \<not> opened x (fst st) then 1 else 0)"
  by (induction body arbitrary: st) (auto simp: access_opened access_connects)

lemma fold_access_disconnects:
  "count_list (snd (fold access body st)) (Disconnect x) = count_list (snd st) (Disconnect x)"
  by (induction body arbitrary: st) (simp_all add: access_disconnects)

lemma teardown_trace:
  "teardown exc st =
     (fst st, snd st @ (if opened COM (fst st) then [Disconnect COM] else []) @
                       (if opened SQL (fst st) then [Disconnect SQL] else []))"
  by (cases st) (simp add: teardown_def opened_def)

lemma teardown_connects:
  "count_list (snd (teardown exc st)) (Connect x) = count_list (snd st) (Connect x)"
  by (simp add: teardown_trace)

lemma teardown_disconnects:
  "count_list (snd (teardown exc st)) (Disconnect x) =
     count_list (snd st) (Disconnect x) + (if opened x (fst st) then 1 else 0)"
  by (cases x) (simp_all add: teardown_trace)

lemma fresh_facts:
  "\<not> opened x (fst fresh)" "snd fresh = []"
  by (cases x) (simp_all add: fresh_def opened_def)

text \<open>
  C9. In a unit of work, each of the two connections is opened at most once: once when
  the body reads its property at all, however often, and not otherwise. The teardown
  hook, whatever exception it is called with, disconnects each connection that was
  opened, once, after all the opening, and no other. A connection that was opened and
  closed is not opened again by a later read of its property on the same context.
\<close>

theorem unit_of_work_connections:
  "count_list (snd (unit_of_work body exc)) (Connect x) = (if x \<in> set body then 1 else 0)
   \<and> count_list (snd (unit_of_work body exc)) (Disconnect x) =
       count_list (snd (unit_of_work body exc)) (Connect x)
   \<and> snd (unit_of_work body exc) =
       snd (fold access body fresh) @
       (if COM \<in> set body then [Disconnect COM] else []) @
       (if SQL \<in> set body then [Disconnect SQL] else [])
   \<and> count_list (snd (fold access body fresh)) (Disconnect x) = 0
   \<and> unit_of_work body exc = unit_of_work body None
   \<and> (x \<in> set body \<longrightarrow>
        count_list (snd (fold access later (unit_of_work body exc))) (Connect x) = 1)"
proof (intro conjI impI)
  show cnt: "count_list (snd (unit_of_work body exc)) (Connect x) = (if x \<in> set body then 1 else 0)"
    by (simp add: unit_of_work_def teardown_connects fold_access_connects fresh_facts)
  show "count_list (snd (unit_of_work body exc)) (Disconnect x) =
       count_list (snd (unit_of_work body exc)) (Connect x)"
    by (simp add: unit_of_work_def teardown_connects teardown_disconnects fold_access_connects
          fold_access_disconnects fold_access_opened fresh_facts)
  show "snd (unit_of_work body exc) =
       snd (fold access body fresh) @
       (if COM \<in> set body then [Disconnect COM] else []) @
       (if SQL \<in> set body then [Disconnect SQL] else [])"
    by (simp add: unit_of_work_def teardown_trace fold_access_opened fresh_facts)
  show "count_list (snd (fold access body fresh)) (Disconnect x) = 0"
    by (simp add: fold_access_disconnects fresh_facts)
  show "unit_of_work body exc = unit_of_work body None"
    by (simp add: unit_of_work_def teardown_trace)
  show "count_list (snd (fold access later (unit_of_work body exc))) (Connect x) = 1"
    if "x \<in> set body"
  proof -
    have "opened x (fst (unit_of_work body exc))"
      using that by (simp add: unit_of_work_def teardown_trace fold_access_opened)
    then show ?thesis using that cnt by (simp add: fold_access_connects)
  qed
qed

theorem unit_of_work_connections_witness:
  "snd (unit_of_work [SQL, COM, SQL, SQL, COM] (Some (Exception ''boom'')))
     = [Connect SQL, Connect COM, Disconnect COM, Disconnect SQL]
   \<and> snd (unit_of_work [SQL, SQL] None) = [Connect SQL, Disconnect SQL]
   \<and> snd (fold access [SQL, COM] (unit_of_work [SQL, SQL] None))
       = [Connect SQL, Disconnect SQL, Connect COM]"
  using unit_of_work_connections [of "[SQL, SQL]" None SQL "[SQL, COM]"]
  by (simp add: unit_of_work_def teardown_def fresh_def access_def com_adaptor_def sql_adaptor_def)

end
